theory Spec2Isabelle
  imports Main "HOL-Library.Word" "HOL-Library.Signed_Division"
begin

section \<open>Go integers\<close>

text \<open>
  The package computes with Go's \<open>int\<close>, taken here at its 64-bit width: addition and
  subtraction wrap around, comparison is signed, and \<open>/\<close> truncates towards zero.
  The only divisor that occurs in the source is the constant 2.
\<close>

type_synonym go_int = "64 word"

definition go_div :: "go_int \<Rightarrow> go_int \<Rightarrow> go_int" where
  "go_div a b = word_of_int (sint a sdiv sint b)"

type_synonym bytes = string

section \<open>Data model\<close>

text \<open>The two environments that \<open>SetEnv\<close> accepts; \<open>_env\<close> starts as DEV.\<close>

datatype environment = EnvironmentDEV | EnvironmentPROD

text \<open>Anchor points for X,Y: the \<open>iota\<close> block of the source.\<close>

definition Left :: go_int where "Left = 0"
definition Right :: go_int where "Right = 1"
definition Top :: go_int where "Top = 2"
definition Bottom :: go_int where "Bottom = 3"
definition Center :: go_int where "Center = 4"

record WatermarkPosition =
  Horizontal :: go_int
  Vertical :: go_int
  OffsetX :: go_int
  OffsetY :: go_int

text \<open>
  \<open>FormatDimensions.Watermark\<close> is a pointer: it is an address into a store of
  watermark positions, \<open>None\<close> for \<open>nil\<close>. Two entries holding the same address share
  one \<open>WatermarkPosition\<close>.
\<close>

type_synonym addr = nat
type_synonym wm_store = "addr \<Rightarrow> WatermarkPosition"

record FormatDimensions =
  Name :: string
  Width :: go_int
  Height :: go_int
  Backdrop :: bool
  Watermark :: "addr option"

record ImageDimensions =
  MinWidth :: go_int
  MinHeight :: go_int
  Formats :: "FormatDimensions list"

text \<open>\<open>image.Config\<close>, without its colour model.\<close>

record Config =
  ConfigWidth :: go_int
  ConfigHeight :: go_int

record Job =
  FileDiskPath :: string
  JobConfig :: Config
  Dimensions :: ImageDimensions

section \<open>Images\<close>

text \<open>
  Pixels are not modelled. An image is the term of library calls that built it, so that
  two results are equal exactly when the same calls were made on the same inputs:
  \<open>Decoded b\<close> is what the registered codecs decode from the bytes \<open>b\<close>, and the other
  constructors are the calls of the imaging library that the source makes. In the source
  every \<open>Fit\<close> and \<open>Fill\<close> uses the Lanczos filter, every \<open>Fill\<close> the centre anchor and
  every overlay the opacity 1.0; these constants are not repeated in the terms.
\<close>

record Point =
  X :: go_int
  Y :: go_int

text \<open>\<open>image.Rectangle\<close>; its fields \<open>Min\<close> and \<open>Max\<close> are \<open>RectMin\<close> and \<open>RectMax\<close> here.\<close>

record Rectangle =
  RectMin :: Point
  RectMax :: Point

definition Dx :: "Rectangle \<Rightarrow> go_int" where
  "Dx r = X (RectMax r) - X (RectMin r)"

definition Dy :: "Rectangle \<Rightarrow> go_int" where
  "Dy r = Y (RectMax r) - Y (RectMin r)"

text \<open>\<open>color.NRGBA\<close>: red, green, blue, alpha.\<close>

datatype NRGBA = NRGBA "8 word" "8 word" "8 word" "8 word"

datatype image =
    Decoded bytes
  | New go_int go_int NRGBA
  | Fit image go_int go_int
  | Fill image go_int go_int
  | OverlayCenter image image
  | Overlay image image Point

datatype imaging_format = JPEG | PNG | GIF | TIFF | BMP

datatype encode_result = Encoded bytes | EncodeFailed bytes

section \<open>The world outside the package\<close>

text \<open>
  The package-level variables and the libraries the transform calls. \<open>assetBox_Open\<close> is
  the \<open>_assetBox\<close> (the code that installs it is not part of the sources at hand);
  \<open>decodable\<close> says which byte strings the codec registry decodes; \<open>Bounds\<close> gives the
  pixel box of an image; \<open>imaging_Encode\<close> returns the bytes written, also when it fails
  half-way.
\<close>

record env =
  env_mode :: environment
  diskPathBackdrop :: string
  diskPathWatermark :: string
  assetBox_Open :: "string \<Rightarrow> bytes option"
  decodable :: "bytes \<Rightarrow> bool"
  Bounds :: "image \<Rightarrow> Rectangle"
  imaging_FormatFromFilename :: "string \<Rightarrow> imaging_format option"
  os_Create_ok :: "string \<Rightarrow> bool"
  imaging_Encode :: "image \<Rightarrow> imaging_format \<Rightarrow> encode_result"

text \<open>The mutable state: the files on disk and the shared watermark positions.\<close>

record state =
  fs :: "string \<Rightarrow> bytes option"
  wm :: wm_store

datatype error =
    ImageOpenError
  | WatermarkNotFound
  | GetFormatError
  | CreateError
  | EncodeError

section \<open>The transform\<close>

definition image_Decode :: "env \<Rightarrow> bytes option \<Rightarrow> image option" where
  "image_Decode e f =
     (case f of
        None \<Rightarrow> None
      | Some b \<Rightarrow> if decodable e b then Some (Decoded b) else None)"

definition imaging_Open :: "env \<Rightarrow> state \<Rightarrow> string \<Rightarrow> image option" where
  "imaging_Open e st path = image_Decode e (fs st path)"

definition fallback_color :: NRGBA where
  "fallback_color = NRGBA 0 29 56 0"

text \<open>
  The backdrop layer. In PROD a failed \<open>_assetBox.Open\<close> leaves a nil file, whose
  decoding fails in turn, so both failures end in the second \<open>imaging.New\<close>.
\<close>

definition open_backdrop :: "env \<Rightarrow> state \<Rightarrow> image option" where
  "open_backdrop e st =
     (if env_mode e = EnvironmentDEV
      then imaging_Open e st (''../assets/'' @ diskPathBackdrop e)
      else image_Decode e (assetBox_Open e (diskPathBackdrop e)))"

definition backdrop_layer :: "env \<Rightarrow> state \<Rightarrow> FormatDimensions \<Rightarrow> image" where
  "backdrop_layer e st format =
     (case open_backdrop e st of
        None \<Rightarrow> New (Width format) (Height format) fallback_color
      | Some back \<Rightarrow> Fill back (Width format) (Height format))"

definition resize :: "env \<Rightarrow> state \<Rightarrow> image \<Rightarrow> go_int \<Rightarrow> go_int \<Rightarrow> bool \<Rightarrow> FormatDimensions \<Rightarrow> image" where
  "resize e st img newWidth newHeight landscape format =
     (if Backdrop format \<and> \<not> landscape
      then OverlayCenter (backdrop_layer e st format) (Fit img newWidth newHeight)
      else Fill img newWidth newHeight)"

text \<open>
  The two switches on the anchors. \<open>watermarkPos\<close> starts as the zero point; the
  \<open>default\<close> branch stores the normalised anchor through the pointer and falls through.
\<close>

definition place_horizontal :: "Rectangle \<Rightarrow> Rectangle \<Rightarrow> WatermarkPosition \<Rightarrow> go_int \<times> WatermarkPosition" where
  "place_horizontal bgBounds watermarkBounds p =
     (if Horizontal p = Left then (0 + OffsetX p, p)
      else if Horizontal p = Right
      then (X (RectMin bgBounds) + Dx bgBounds - Dx watermarkBounds - OffsetX p, p)
      else if Horizontal p = Center
      then (X (RectMin bgBounds) + go_div (Dx bgBounds) 2 - go_div (Dx watermarkBounds) 2 + OffsetX p, p)
      else (0 + OffsetX p, p\<lparr>Horizontal := Left\<rparr>))"

definition place_vertical :: "Rectangle \<Rightarrow> Rectangle \<Rightarrow> WatermarkPosition \<Rightarrow> go_int \<times> WatermarkPosition" where
  "place_vertical bgBounds watermarkBounds p =
     (if Vertical p = Top then (0 + OffsetY p, p)
      else if Vertical p = Bottom
      then (Y (RectMin bgBounds) + Dy bgBounds - Dy watermarkBounds - OffsetY p, p)
      else if Vertical p = Center
      then (Y (RectMin bgBounds) + go_div (Dy bgBounds) 2 - go_div (Dy watermarkBounds) 2 + OffsetY p, p)
      else (0 + OffsetY p, p\<lparr>Vertical := Top\<rparr>))"

definition watermarkPos :: "Rectangle \<Rightarrow> Rectangle \<Rightarrow> WatermarkPosition \<Rightarrow> Point \<times> WatermarkPosition" where
  "watermarkPos bgBounds watermarkBounds p =
     (let (x, p1) = place_horizontal bgBounds watermarkBounds p;
          (y, p2) = place_vertical bgBounds watermarkBounds p1
      in (\<lparr>X = x, Y = y\<rparr>, p2))"

text \<open>
  The watermark asset is keyed by the base key and the format name. Only a failed
  \<open>_assetBox.Open\<close> in PROD returns from the transform; an asset that does not decode,
  and any failure in DEV, leaves \<open>err\<close> set and the overlay is skipped.
\<close>

definition open_watermark :: "env \<Rightarrow> state \<Rightarrow> string \<Rightarrow> error + image option" where
  "open_watermark e st name =
     (if env_mode e = EnvironmentDEV
      then Inr (imaging_Open e st (''../assets/'' @ diskPathWatermark e @ '':'' @ name))
      else (case assetBox_Open e (diskPathWatermark e @ '':'' @ name) of
              None \<Rightarrow> Inl WatermarkNotFound
            | Some b \<Rightarrow> Inr (image_Decode e (Some b))))"

definition apply_watermark :: "env \<Rightarrow> state \<Rightarrow> image \<Rightarrow> FormatDimensions \<Rightarrow> error + image \<times> state" where
  "apply_watermark e st img format =
     (case Watermark format of
        None \<Rightarrow> Inr (img, st)
      | Some a \<Rightarrow>
          (case open_watermark e st (Name format) of
             Inl err \<Rightarrow> Inl err
           | Inr None \<Rightarrow> Inr (img, st)
           | Inr (Some watermark) \<Rightarrow>
               (let (pos, p) = watermarkPos (Bounds e img) (Bounds e watermark) (wm st a)
                in Inr (Overlay img watermark pos, st\<lparr>wm := (wm st)(a := p)\<rparr>))))"

text \<open>
  The end of the transform: the codec from the name of the original, the output file at
  \<open><imgDiskPath>:<format.Name>\<close>, the encoding. \<open>os.Create\<close> leaves an empty file, which
  the encoder then fills.
\<close>

definition save :: "env \<Rightarrow> state \<Rightarrow> string \<Rightarrow> FormatDimensions \<Rightarrow> image \<Rightarrow> error option \<times> state" where
  "save e st imgDiskPath format img =
     (case imaging_FormatFromFilename e imgDiskPath of
        None \<Rightarrow> (Some GetFormatError, st)
      | Some imagingFormat \<Rightarrow>
          (let newDiskPath = imgDiskPath @ '':'' @ Name format
           in if \<not> os_Create_ok e newDiskPath then (Some CreateError, st)
              else (case imaging_Encode e img imagingFormat of
                      Encoded b \<Rightarrow> (None, st\<lparr>fs := (fs st)(newDiskPath \<mapsto> b)\<rparr>)
                    | EncodeFailed b \<Rightarrow> (Some EncodeError, st\<lparr>fs := (fs st)(newDiskPath \<mapsto> b)\<rparr>))))"

definition imageProcess :: "env \<Rightarrow> state \<Rightarrow> string \<Rightarrow> go_int \<Rightarrow> go_int \<Rightarrow> bool \<Rightarrow> FormatDimensions \<Rightarrow> error option \<times> state" where
  "imageProcess e st imgDiskPath newWidth newHeight landscape format =
     (case imaging_Open e st imgDiskPath of
        None \<Rightarrow> (Some ImageOpenError, st)
      | Some img \<Rightarrow>
          (case apply_watermark e st (resize e st img newWidth newHeight landscape format) format of
             Inl err \<Rightarrow> (Some err, st)
           | Inr (img', st') \<Rightarrow> save e st' imgDiskPath format img'))"

section \<open>Executing a job\<close>

text \<open>The body of the loop of \<open>execute\<close>, in the order of the source.\<close>

definition newWidth :: "Job \<Rightarrow> FormatDimensions \<Rightarrow> go_int" where
  "newWidth j format =
     (if ConfigWidth (JobConfig j) <s Width format then ConfigWidth (JobConfig j)
      else Width format)"

definition newHeight :: "Job \<Rightarrow> FormatDimensions \<Rightarrow> go_int" where
  "newHeight j format =
     (if ConfigHeight (JobConfig j) <s ConfigHeight (JobConfig j) then ConfigHeight (JobConfig j)
      else Height format)"

definition landscape :: "Job \<Rightarrow> bool" where
  "landscape j \<longleftrightarrow> ConfigHeight (JobConfig j) <s ConfigWidth (JobConfig j)"

text \<open>The error that \<open>imageProcess\<close> returns is dropped by \<open>execute\<close>.\<close>

definition execute_format :: "env \<Rightarrow> Job \<Rightarrow> state \<Rightarrow> FormatDimensions \<Rightarrow> state" where
  "execute_format e j st format =
     (if Name format = [] \<or> Width format \<le>s 0 \<or> Height format \<le>s 0 then st
      else snd (imageProcess e st (FileDiskPath j) (newWidth j format) (newHeight j format)
                  (landscape j) format))"

fun execute_formats :: "env \<Rightarrow> Job \<Rightarrow> state \<Rightarrow> FormatDimensions list \<Rightarrow> state" where
  "execute_formats e j st [] = st"
| "execute_formats e j st (format # formats) =
     execute_formats e j (execute_format e j st format) formats"

definition execute :: "env \<Rightarrow> Job \<Rightarrow> state \<Rightarrow> state" where
  "execute e j st = execute_formats e j st (Formats (Dimensions j))"

section \<open>Validation: Add\<close>

definition TypeImageJPG :: string where "TypeImageJPG = ''jpg''"
definition TypeImageJPEG :: string where "TypeImageJPEG = ''jpeg''"
definition TypeImagePNG :: string where "TypeImagePNG = ''png''"

text \<open>
  What \<open>Add\<close> calls outside this file: the magic-byte check of the filetype library, the
  header decoding of the codec registry (the configuration and the name of the format
  that matched), and the constant \<open>util.NoLimit\<close>, whose value is not in the sources at
  hand and is therefore a parameter.
\<close>

record validator =
  filetype_IsImage :: "bytes \<Rightarrow> bool"
  image_DecodeConfig :: "bytes \<Rightarrow> (Config \<times> string) option"
  NoLimit :: go_int

text \<open>
  The errors of \<open>Add\<close>, by the message of the source: "image type invalid", the error of
  the header decoding, "image type %s invalid", "image width less than %dpx" and
  "image height less than %dpx".
\<close>

datatype add_error =
    NotAnImage
  | DecodeError
  | UnsupportedType string
  | BelowMinWidth go_int
  | BelowMinHeight go_int

text \<open>The names under which \<open>init\<close> registers codecs, in its order.\<close>

definition init_registered :: "string list" where
  "init_registered = [''jpeg'', ''png'', ''gif'']"

definition DefaultDimensions :: "validator \<Rightarrow> ImageDimensions" where
  "DefaultDimensions v = \<lparr>MinWidth = NoLimit v, MinHeight = NoLimit v, Formats = []\<rparr>"

text \<open>
  \<open>Add\<close> up to its last statement: \<open>Inl\<close> is the error returned, with nothing sent;
  \<open>Inr job\<close> is the job that is sent on the channel before \<open>nil\<close> is returned. The
  dimensions are a pointer, \<open>None\<close> for \<open>nil\<close>.
\<close>

definition Add :: "validator \<Rightarrow> bytes \<Rightarrow> string \<Rightarrow> ImageDimensions option \<Rightarrow> bool \<Rightarrow> add_error + Job" where
  "Add v buf fileDiskPath dimensions validate =
     (if \<not> filetype_IsImage v buf then Inl NotAnImage
      else
        (let dims = (case dimensions of None \<Rightarrow> DefaultDimensions v | Some d \<Rightarrow> d)
         in case image_DecodeConfig v buf of
              None \<Rightarrow> Inl DecodeError
            | Some (config, imgType) \<Rightarrow>
                if \<not> (imgType = TypeImageJPG \<or> imgType = TypeImageJPEG \<or> imgType = TypeImagePNG)
                then Inl (UnsupportedType imgType)
                else if validate \<and> MinWidth dims \<noteq> NoLimit v \<and> ConfigWidth config <s MinWidth dims
                then Inl (BelowMinWidth (MinWidth dims))
                else if validate \<and> MinHeight dims \<noteq> NoLimit v \<and> ConfigHeight config <s MinHeight dims
                then Inl (BelowMinHeight (MinHeight dims))
                else Inr \<lparr>FileDiskPath = fileDiskPath, JobConfig = config, Dimensions = dims\<rparr>))"

section \<open>The dispatcher\<close>

text \<open>
  The state of an \<open>Imagist\<close>: the two channels, the map of \<open>listen\<close> (only its keys
  carry information) and the executions started with \<open>go i.execute(job)\<close> that have not
  yet sent on \<open>done\<close>. A channel is its queue of pending values; the capacity is not
  modelled, since a full (or unbuffered) channel only delays a sender and so removes
  interleavings, never adds one.
\<close>

record dispatcher =
  jobs_chan :: "Job list"
  done_chan :: "string list"
  jobs_map :: "string set"
  running :: "Job list"

definition New_dispatcher :: dispatcher where
  "New_dispatcher = \<lparr>jobs_chan = [], done_chan = [], jobs_map = {}, running = []\<rparr>"

text \<open>The two cases of the \<open>select\<close> in \<open>listen\<close>; \<open>None\<close> when the channel has nothing to receive.\<close>

definition listen_done :: "dispatcher \<Rightarrow> dispatcher option" where
  "listen_done d =
     (case done_chan d of
        [] \<Rightarrow> None
      | done # rest \<Rightarrow> Some (d\<lparr>done_chan := rest, jobs_map := jobs_map d - {done}\<rparr>))"

definition listen_job :: "dispatcher \<Rightarrow> dispatcher option" where
  "listen_job d =
     (case jobs_chan d of
        [] \<Rightarrow> None
      | job # rest \<Rightarrow>
          if FileDiskPath job \<notin> jobs_map d
          then Some (d\<lparr>jobs_chan := rest,
                       jobs_map := insert (FileDiskPath job) (jobs_map d),
                       running := running d @ [job]\<rparr>)
          else Some (d\<lparr>jobs_chan := rest\<rparr>))"

text \<open>The send at the end of \<open>Add\<close>, and the send at the end of the \<open>n\<close>-th running \<open>execute\<close>.\<close>

definition send_job :: "Job \<Rightarrow> dispatcher \<Rightarrow> dispatcher" where
  "send_job job d = d\<lparr>jobs_chan := jobs_chan d @ [job]\<rparr>"

definition execute_done :: "nat \<Rightarrow> dispatcher \<Rightarrow> dispatcher option" where
  "execute_done n d =
     (if n < length (running d)
      then Some (d\<lparr>running := take n (running d) @ drop (Suc n) (running d),
                   done_chan := done_chan d @ [FileDiskPath (running d ! n)]\<rparr>)
      else None)"

datatype event = AddSends Job | ListenDone | ListenJob | ExecuteDone nat

fun step :: "dispatcher \<Rightarrow> event \<Rightarrow> dispatcher option" where
  "step d (AddSends job) = Some (send_job job d)"
| "step d ListenDone = listen_done d"
| "step d ListenJob = listen_job d"
| "step d (ExecuteDone n) = execute_done n d"

fun run :: "dispatcher \<Rightarrow> event list \<Rightarrow> dispatcher option" where
  "run d [] = Some d"
| "run d (ev # evs) = (case step d ev of None \<Rightarrow> None | Some d' \<Rightarrow> run d' evs)"

text \<open>The number of executions running for a key.\<close>

definition executions :: "dispatcher \<Rightarrow> string \<Rightarrow> nat" where
  "executions d key = length (filter (\<lambda>job. FileDiskPath job = key) (running d))"

text \<open>
  The invariant of the dispatcher: for every key, the executions running for it and the
  completion signals pending for it are together at most one, and none unless the key is
  in the map.
\<close>

definition one_per_key :: "dispatcher \<Rightarrow> bool" where
  "one_per_key d \<longleftrightarrow>
     (\<forall>key. executions d key + count_list (done_chan d) key \<le> (if key \<in> jobs_map d then 1 else 0))"

section \<open>Example inputs\<close>

definition example_job :: Job where
  "example_job = \<lparr>FileDiskPath = ''a.png'', JobConfig = \<lparr>ConfigWidth = 100, ConfigHeight = 200\<rparr>,
     Dimensions = \<lparr>MinWidth = 0, MinHeight = 0, Formats = []\<rparr>\<rparr>"

fun example_Bounds :: "image \<Rightarrow> Rectangle" where
  "example_Bounds (Decoded b) = \<lparr>RectMin = \<lparr>X = 0, Y = 0\<rparr>, RectMax = \<lparr>X = 20, Y = 10\<rparr>\<rparr>"
| "example_Bounds (New w h c) = \<lparr>RectMin = \<lparr>X = 0, Y = 0\<rparr>, RectMax = \<lparr>X = w, Y = h\<rparr>\<rparr>"
| "example_Bounds (Fit img w h) = \<lparr>RectMin = \<lparr>X = 0, Y = 0\<rparr>, RectMax = \<lparr>X = w, Y = h\<rparr>\<rparr>"
| "example_Bounds (Fill img w h) = \<lparr>RectMin = \<lparr>X = 0, Y = 0\<rparr>, RectMax = \<lparr>X = w, Y = h\<rparr>\<rparr>"
| "example_Bounds (OverlayCenter back img) = example_Bounds back"
| "example_Bounds (Overlay back img pos) = example_Bounds back"

fun example_Encode :: "image \<Rightarrow> imaging_format \<Rightarrow> encode_result" where
  "example_Encode (Overlay back img pos) f = Encoded ''watermarked''"
| "example_Encode (OverlayCenter back img) f = Encoded ''backdropped''"
| "example_Encode img f = Encoded ''plain''"

definition example_env :: env where
  "example_env =
     \<lparr>env_mode = EnvironmentDEV,
      diskPathBackdrop = ''backdrop.png'',
      diskPathWatermark = ''watermark.png'',
      assetBox_Open = (\<lambda>key. None),
      decodable = (\<lambda>b. b = ''img'' \<or> b = ''mark''),
      Bounds = example_Bounds,
      imaging_FormatFromFilename = (\<lambda>path. if path = ''a.png'' then Some PNG else None),
      os_Create_ok = (\<lambda>path. True),
      imaging_Encode = example_Encode\<rparr>"

definition example_state :: state where
  "example_state =
     \<lparr>fs = (\<lambda>path. if path = ''a.png'' then Some ''img'' else None),
      wm = (\<lambda>a. \<lparr>Horizontal = 7, Vertical = 7, OffsetX = 5, OffsetY = 5\<rparr>)\<rparr>"

definition example_format :: FormatDimensions where
  "example_format = \<lparr>Name = ''thumb'', Width = 500, Height = 500, Backdrop = True, Watermark = Some 0\<rparr>"

definition example_validator :: validator where
  "example_validator =
     \<lparr>filetype_IsImage = (\<lambda>buf. buf \<noteq> []),
      image_DecodeConfig =
        (\<lambda>buf. if buf = ''GIF89a'' then Some (\<lparr>ConfigWidth = 100, ConfigHeight = 200\<rparr>, ''gif'')
               else if buf = ''PNG'' then Some (\<lparr>ConfigWidth = 100, ConfigHeight = 200\<rparr>, ''png'')
               else None),
      NoLimit = - 1\<rparr>"

section \<open>Properties\<close>

subsection \<open>The target size\<close>

lemma newHeight_is_requested: "newHeight j format = Height format"
  by (simp add: newHeight_def)

lemma newWidth_capped:
  "newWidth j format =
     (if sint (ConfigWidth (JobConfig j)) < sint (Width format) then ConfigWidth (JobConfig j)
      else Width format)"
  by (simp add: newWidth_def word_sless_alt)

text \<open>
  C1. The width passed to the transform is capped to the width of the original, but the
  height is not: the test of the source compares the height of the original with itself,
  so the requested height is passed on. For an original of 100 by 100 and a format of 500
  by 500 the transform is called with the target 100 by 500.
\<close>

theorem newHeight_upscales:
  "newWidth \<lparr>FileDiskPath = ''a.png'', JobConfig = \<lparr>ConfigWidth = 100, ConfigHeight = 100\<rparr>,
               Dimensions = \<lparr>MinWidth = 0, MinHeight = 0, Formats = []\<rparr>\<rparr>
            \<lparr>Name = ''thumb'', Width = 500, Height = 500, Backdrop = False, Watermark = None\<rparr> = 100
   \<and> newHeight \<lparr>FileDiskPath = ''a.png'', JobConfig = \<lparr>ConfigWidth = 100, ConfigHeight = 100\<rparr>,
               Dimensions = \<lparr>MinWidth = 0, MinHeight = 0, Formats = []\<rparr>\<rparr>
            \<lparr>Name = ''thumb'', Width = 500, Height = 500, Backdrop = False, Watermark = None\<rparr> = 500"
  by (simp add: newWidth_def newHeight_def word_sless_alt)

subsection \<open>Anchor arithmetic\<close>

text \<open>
  C5. The background of the overlay is a result of the imaging library, whose pixel box
  starts at the origin: a box of \<open>bgWidth\<close> by \<open>bgHeight\<close>. For every such box, every
  watermark box and every position, the placement point is: Left, x = OffsetX; Right,
  x = (bgWidth - wmWidth) - OffsetX; Center, x = bgWidth/2 - wmWidth/2 + OffsetX; any other
  horizontal anchor as Left, and the anchor stored becomes Left; Top, y = OffsetY; Bottom,
  y = (bgHeight - wmHeight) - OffsetY; Center, y = bgHeight/2 - wmHeight/2 + OffsetY; any
  other vertical anchor as Top, and the anchor stored becomes Top. The division is Go's.
  For a background of 200 by 100 and a watermark of 20 by 10, Right/Bottom with offsets 5
  gives (175, 85) and Center/Center with offsets 0 gives (90, 45).
\<close>

theorem watermarkPos_anchor_math:
  "watermarkPos \<lparr>RectMin = \<lparr>X = 0, Y = 0\<rparr>, RectMax = \<lparr>X = bgWidth, Y = bgHeight\<rparr>\<rparr> watermarkBounds p =
      (\<lparr>X = (if Horizontal p = Left then OffsetX p
              else if Horizontal p = Right then (bgWidth - Dx watermarkBounds) - OffsetX p
              else if Horizontal p = Center
              then go_div bgWidth 2 - go_div (Dx watermarkBounds) 2 + OffsetX p
              else OffsetX p),
         Y = (if Vertical p = Top then OffsetY p
              else if Vertical p = Bottom then (bgHeight - Dy watermarkBounds) - OffsetY p
              else if Vertical p = Center
              then go_div bgHeight 2 - go_div (Dy watermarkBounds) 2 + OffsetY p
              else OffsetY p)\<rparr>,
       p\<lparr>Horizontal := (if Horizontal p \<in> {Left, Right, Center} then Horizontal p else Left),
         Vertical := (if Vertical p \<in> {Top, Bottom, Center} then Vertical p else Top)\<rparr>)
     \<and> fst (watermarkPos \<lparr>RectMin = \<lparr>X = 0, Y = 0\<rparr>, RectMax = \<lparr>X = 200, Y = 100\<rparr>\<rparr>
                \<lparr>RectMin = \<lparr>X = 0, Y = 0\<rparr>, RectMax = \<lparr>X = 20, Y = 10\<rparr>\<rparr>
                \<lparr>Horizontal = Right, Vertical = Bottom, OffsetX = 5, OffsetY = 5\<rparr>)
         = \<lparr>X = 175, Y = 85\<rparr>
     \<and> fst (watermarkPos \<lparr>RectMin = \<lparr>X = 0, Y = 0\<rparr>, RectMax = \<lparr>X = 200, Y = 100\<rparr>\<rparr>
                \<lparr>RectMin = \<lparr>X = 0, Y = 0\<rparr>, RectMax = \<lparr>X = 20, Y = 10\<rparr>\<rparr>
                \<lparr>Horizontal = Center, Vertical = Center, OffsetX = 0, OffsetY = 0\<rparr>)
         = \<lparr>X = 90, Y = 45\<rparr>"
proof (intro conjI)
  show "watermarkPos \<lparr>RectMin = \<lparr>X = 0, Y = 0\<rparr>, RectMax = \<lparr>X = bgWidth, Y = bgHeight\<rparr>\<rparr> watermarkBounds p =
      (\<lparr>X = (if Horizontal p = Left then OffsetX p
              else if Horizontal p = Right then (bgWidth - Dx watermarkBounds) - OffsetX p
              else if Horizontal p = Center
              then go_div bgWidth 2 - go_div (Dx watermarkBounds) 2 + OffsetX p
              else OffsetX p),
         Y = (if Vertical p = Top then OffsetY p
              else if Vertical p = Bottom then (bgHeight - Dy watermarkBounds) - OffsetY p
              else if Vertical p = Center
              then go_div bgHeight 2 - go_div (Dy watermarkBounds) 2 + OffsetY p
              else OffsetY p)\<rparr>,
       p\<lparr>Horizontal := (if Horizontal p \<in> {Left, Right, Center} then Horizontal p else Left),
         Vertical := (if Vertical p \<in> {Top, Bottom, Center} then Vertical p else Top)\<rparr>)"
    by (simp add: watermarkPos_def place_horizontal_def place_vertical_def Dx_def Dy_def)
next
  show "fst (watermarkPos \<lparr>RectMin = \<lparr>X = 0, Y = 0\<rparr>, RectMax = \<lparr>X = 200, Y = 100\<rparr>\<rparr>
                \<lparr>RectMin = \<lparr>X = 0, Y = 0\<rparr>, RectMax = \<lparr>X = 20, Y = 10\<rparr>\<rparr>
                \<lparr>Horizontal = Right, Vertical = Bottom, OffsetX = 5, OffsetY = 5\<rparr>)
         = \<lparr>X = 175, Y = 85\<rparr>"
    by (simp add: watermarkPos_def place_horizontal_def place_vertical_def Dx_def Dy_def
        Left_def Right_def Top_def Bottom_def Center_def)
next
  show "fst (watermarkPos \<lparr>RectMin = \<lparr>X = 0, Y = 0\<rparr>, RectMax = \<lparr>X = 200, Y = 100\<rparr>\<rparr>
                \<lparr>RectMin = \<lparr>X = 0, Y = 0\<rparr>, RectMax = \<lparr>X = 20, Y = 10\<rparr>\<rparr>
                \<lparr>Horizontal = Center, Vertical = Center, OffsetX = 0, OffsetY = 0\<rparr>)
         = \<lparr>X = 90, Y = 45\<rparr>"
    by (simp add: watermarkPos_def place_horizontal_def place_vertical_def Dx_def Dy_def
        Left_def Right_def Top_def Bottom_def Center_def go_div_def signed_divide_int_def)
qed

theorem watermarkPos_anchor_math_witness:
  "watermarkPos \<lparr>RectMin = \<lparr>X = 0, Y = 0\<rparr>, RectMax = \<lparr>X = 200, Y = 100\<rparr>\<rparr>
       \<lparr>RectMin = \<lparr>X = 0, Y = 0\<rparr>, RectMax = \<lparr>X = 20, Y = 10\<rparr>\<rparr>
       \<lparr>Horizontal = 7, Vertical = Bottom, OffsetX = 5, OffsetY = 5\<rparr>
   = (\<lparr>X = 5, Y = 85\<rparr>, \<lparr>Horizontal = Left, Vertical = Bottom, OffsetX = 5, OffsetY = 5\<rparr>)"
  using watermarkPos_anchor_math [of 200 100 "\<lparr>RectMin = \<lparr>X = 0, Y = 0\<rparr>, RectMax = \<lparr>X = 20, Y = 10\<rparr>\<rparr>"
      "\<lparr>Horizontal = 7, Vertical = Bottom, OffsetX = 5, OffsetY = 5\<rparr>"]
  by (simp add: Dx_def Dy_def Left_def Right_def Top_def Bottom_def Center_def)

subsection \<open>The dispatcher\<close>

lemma count_list_snoc: "count_list (xs @ [x]) y = count_list xs y + (if x = y then 1 else 0)"
  by (induction xs) auto

lemma filter_remove_nth:
  assumes "n < length xs"
  shows "length (filter P (take n xs @ drop (Suc n) xs)) + (if P (xs ! n) then 1 else 0)
         = length (filter P xs)"
proof -
  have "xs = take n xs @ xs ! n # drop (Suc n) xs"
    using assms by (rule id_take_nth_drop)
  then have "length (filter P xs) = length (filter P (take n xs @ xs ! n # drop (Suc n) xs))"
    by simp
  then show ?thesis by simp
qed

lemma one_per_key_New: "one_per_key New_dispatcher"
  by (simp add: one_per_key_def New_dispatcher_def executions_def)

lemma one_per_key_send: "one_per_key d \<Longrightarrow> one_per_key (send_job job d)"
  by (simp add: one_per_key_def send_job_def executions_def)

lemma one_per_key_listen_done:
  assumes "one_per_key d" and "listen_done d = Some d'"
  shows "one_per_key d'"
proof (cases "done_chan d")
  case Nil
  with assms show ?thesis by (simp add: listen_done_def)
next
  case (Cons k rest)
  then have d': "d' = d\<lparr>done_chan := rest, jobs_map := jobs_map d - {k}\<rparr>"
    using assms by (simp add: listen_done_def)
  show ?thesis
    unfolding one_per_key_def
  proof
    fix key
    have "executions d key + count_list (done_chan d) key \<le> (if key \<in> jobs_map d then 1 else 0)"
      using assms(1) by (simp add: one_per_key_def)
    then show "executions d' key + count_list (done_chan d') key \<le> (if key \<in> jobs_map d' then 1 else 0)"
      using Cons by (auto simp: d' executions_def split: if_splits)
  qed
qed

lemma one_per_key_listen_job:
  assumes "one_per_key d" and "listen_job d = Some d'"
  shows "one_per_key d'"
proof (cases "jobs_chan d")
  case Nil
  with assms show ?thesis by (simp add: listen_job_def)
next
  case (Cons job rest)
  show ?thesis
    unfolding one_per_key_def
  proof
    fix key
    have "executions d key + count_list (done_chan d) key \<le> (if key \<in> jobs_map d then 1 else 0)"
      using assms(1) by (simp add: one_per_key_def)
    then show "executions d' key + count_list (done_chan d') key \<le> (if key \<in> jobs_map d' then 1 else 0)"
      using Cons assms(2) by (auto simp: listen_job_def executions_def split: if_splits)
  qed
qed

lemma one_per_key_execute_done:
  assumes "one_per_key d" and "execute_done n d = Some d'"
  shows "one_per_key d'"
proof -
  have n: "n < length (running d)"
    using assms(2) by (auto simp: execute_done_def split: if_splits)
  then have d': "d' = d\<lparr>running := take n (running d) @ drop (Suc n) (running d),
                   done_chan := done_chan d @ [FileDiskPath (running d ! n)]\<rparr>"
    using assms(2) by (simp add: execute_done_def)
  show ?thesis
    unfolding one_per_key_def
  proof
    fix key
    have "executions d key + count_list (done_chan d) key \<le> (if key \<in> jobs_map d then 1 else 0)"
      using assms(1) by (simp add: one_per_key_def)
    moreover have "executions d' key + count_list (done_chan d') key
        = executions d key + count_list (done_chan d) key"
      using filter_remove_nth [OF n, of "\<lambda>job. FileDiskPath job = key"]
      by (auto simp: d' executions_def count_list_snoc split: if_splits)
    ultimately show "executions d' key + count_list (done_chan d') key \<le> (if key \<in> jobs_map d' then 1 else 0)"
      by (simp add: d')
  qed
qed

lemma one_per_key_step: "one_per_key d \<Longrightarrow> step d ev = Some d' \<Longrightarrow> one_per_key d'"
  by (cases ev)
    (auto intro: one_per_key_send one_per_key_listen_done one_per_key_listen_job
      one_per_key_execute_done)

lemma one_per_key_run: "one_per_key d \<Longrightarrow> run d evs = Some d' \<Longrightarrow> one_per_key d'"
proof (induction evs arbitrary: d)
  case Nil
  then show ?case by simp
next
  case (Cons ev evs)
  then show ?case
    by (auto split: option.splits dest: one_per_key_step)
qed

lemma one_per_key_executions: "one_per_key d \<Longrightarrow> executions d key \<le> 1"
  unfolding one_per_key_def
  by (metis add_leD1 le_zero_eq zero_le_one)

text \<open>
  C2. In every state that the dispatcher reaches from \<open>New\<close>, by any interleaving of
  sends from \<open>Add\<close>, receptions by \<open>listen\<close> and completions of executions, at most one
  execution runs for a key. There, a job received for a key that is in the map is dropped:
  only the channel changes, no execution starts, and \<open>listen\<close> has no error to return. A
  job received for a key that is not in the map puts the key into the map and starts one
  execution, the only one for that key. A completion signal received for a key removes
  the key from the map, and no execution runs for that key then.
\<close>

theorem listen_one_execution_per_key:
  assumes "run New_dispatcher evs = Some d"
  shows "executions d key \<le> 1
    \<and> (\<forall>job rest. jobs_chan d = job # rest \<and> FileDiskPath job \<in> jobs_map d \<longrightarrow>
          listen_job d = Some (d\<lparr>jobs_chan := rest\<rparr>))
    \<and> (\<forall>job rest. jobs_chan d = job # rest \<and> FileDiskPath job \<notin> jobs_map d \<longrightarrow>
          listen_job d = Some (d\<lparr>jobs_chan := rest,
                                 jobs_map := insert (FileDiskPath job) (jobs_map d),
                                 running := running d @ [job]\<rparr>)
          \<and> executions (d\<lparr>running := running d @ [job]\<rparr>) (FileDiskPath job) = 1)
    \<and> (\<forall>done rest. done_chan d = done # rest \<longrightarrow>
          listen_done d = Some (d\<lparr>done_chan := rest, jobs_map := jobs_map d - {done}\<rparr>)
          \<and> executions d done = 0)"
proof -
  have inv: "one_per_key d"
    using one_per_key_New assms by (rule one_per_key_run)
  have 1: "executions d key \<le> 1"
    using inv by (rule one_per_key_executions)
  have 2: "\<forall>job rest. jobs_chan d = job # rest \<and> FileDiskPath job \<in> jobs_map d \<longrightarrow>
          listen_job d = Some (d\<lparr>jobs_chan := rest\<rparr>)"
    by (simp add: listen_job_def)
  have 3: "\<forall>job rest. jobs_chan d = job # rest \<and> FileDiskPath job \<notin> jobs_map d \<longrightarrow>
          listen_job d = Some (d\<lparr>jobs_chan := rest,
                                 jobs_map := insert (FileDiskPath job) (jobs_map d),
                                 running := running d @ [job]\<rparr>)
          \<and> executions (d\<lparr>running := running d @ [job]\<rparr>) (FileDiskPath job) = 1"
  proof (intro allI impI conjI)
    fix job rest
    assume a: "jobs_chan d = job # rest \<and> FileDiskPath job \<notin> jobs_map d"
    then show "listen_job d = Some (d\<lparr>jobs_chan := rest,
                                 jobs_map := insert (FileDiskPath job) (jobs_map d),
                                 running := running d @ [job]\<rparr>)"
      by (simp add: listen_job_def)
    have "executions d (FileDiskPath job) + count_list (done_chan d) (FileDiskPath job) \<le> 0"
      using inv a unfolding one_per_key_def by (metis (full_types))
    then show "executions (d\<lparr>running := running d @ [job]\<rparr>) (FileDiskPath job) = 1"
      by (simp add: executions_def)
  qed
  have 4: "\<forall>done rest. done_chan d = done # rest \<longrightarrow>
          listen_done d = Some (d\<lparr>done_chan := rest, jobs_map := jobs_map d - {done}\<rparr>)
          \<and> executions d done = 0"
  proof (intro allI impI conjI)
    fix k rest
    assume a: "done_chan d = k # rest"
    then show "listen_done d = Some (d\<lparr>done_chan := rest, jobs_map := jobs_map d - {k}\<rparr>)"
      by (simp add: listen_done_def)
    have "executions d k + count_list (done_chan d) k \<le> 1"
      using inv unfolding one_per_key_def by (metis (full_types) le_zero_eq zero_le_one)
    then show "executions d k = 0" using a by simp
  qed
  from 1 2 3 4 show ?thesis by blast
qed

lemma run1: "run New_dispatcher [AddSends example_job, ListenJob, AddSends example_job]
   = Some \<lparr>jobs_chan = [example_job], done_chan = [], jobs_map = {''a.png''}, running = [example_job]\<rparr>"
  by (simp add: New_dispatcher_def send_job_def listen_job_def example_job_def)

lemma run2: "run New_dispatcher [AddSends example_job]
   = Some \<lparr>jobs_chan = [example_job], done_chan = [], jobs_map = {}, running = []\<rparr>"
  by (simp add: New_dispatcher_def send_job_def listen_job_def example_job_def)

lemma run3: "run New_dispatcher [AddSends example_job, ListenJob, ExecuteDone 0]
   = Some \<lparr>jobs_chan = [], done_chan = [''a.png''], jobs_map = {''a.png''}, running = []\<rparr>"
  by (simp add: New_dispatcher_def send_job_def listen_job_def execute_done_def example_job_def)

theorem listen_one_execution_per_key_witness:
  "executions \<lparr>jobs_chan = [example_job], done_chan = [], jobs_map = {''a.png''}, running = [example_job]\<rparr> ''a.png'' \<le> 1
   \<and> listen_job \<lparr>jobs_chan = [example_job], done_chan = [], jobs_map = {''a.png''}, running = [example_job]\<rparr>
       = Some \<lparr>jobs_chan = [], done_chan = [], jobs_map = {''a.png''}, running = [example_job]\<rparr>
   \<and> listen_job \<lparr>jobs_chan = [example_job], done_chan = [], jobs_map = {}, running = []\<rparr>
       = Some \<lparr>jobs_chan = [], done_chan = [], jobs_map = {''a.png''}, running = [example_job]\<rparr>
   \<and> listen_done \<lparr>jobs_chan = [], done_chan = [''a.png''], jobs_map = {''a.png''}, running = []\<rparr>
       = Some \<lparr>jobs_chan = [], done_chan = [], jobs_map = {}, running = []\<rparr>"
  using listen_one_execution_per_key [OF run1, of "''a.png''"]
    listen_one_execution_per_key [OF run2, of "''a.png''"]
    listen_one_execution_per_key [OF run3, of "''a.png''"]
  by (simp add: example_job_def)

subsection \<open>The example world\<close>

lemmas ex_defs = example_env_def example_state_def example_format_def example_job_def
  imageProcess_def imaging_Open_def image_Decode_def resize_def backdrop_layer_def open_backdrop_def
  apply_watermark_def open_watermark_def save_def fallback_color_def

subsection \<open>Formats that are skipped\<close>

lemma execute_formats_append:
  "execute_formats e j st (xs @ ys) = execute_formats e j (execute_formats e j st xs) ys"
  by (induction xs arbitrary: st) simp_all

lemma execute_format_Dimensions:
  "execute_format e (j\<lparr>Dimensions := d\<rparr>) st format = execute_format e j st format"
  by (simp add: execute_format_def newWidth_def newHeight_def landscape_def)

lemma execute_formats_Dimensions:
  "execute_formats e (j\<lparr>Dimensions := d\<rparr>) st formats = execute_formats e j st formats"
  by (induction formats arbitrary: st) (simp_all add: execute_format_Dimensions)

text \<open>
  C8. An entry with an empty name, or with a width or a height that is not positive,
  is skipped: executing it leaves the state as it is, so no file is written, and a job
  that has the entry among its formats ends in the state of the same job without it, so
  the entries before and after it are processed as if it were not there. \<open>execute\<close>
  returns no error, for this entry or any other.
\<close>

theorem execute_skips_invalid_format:
  assumes "Name format = [] \<or> Width format \<le>s 0 \<or> Height format \<le>s 0"
  shows "execute_format e j st format = st
     \<and> (Formats (Dimensions j) = before @ format # after \<longrightarrow>
          execute e j st = execute e (j\<lparr>Dimensions := (Dimensions j)\<lparr>Formats := before @ after\<rparr>\<rparr>) st)"
proof -
  have 1: "execute_format e j st' format = st'" for st'
    using assms by (auto simp: execute_format_def)
  have "execute_formats e j st (before @ format # after) = execute_formats e j st (before @ after)"
    by (simp add: execute_formats_append 1)
  then show ?thesis
    by (simp add: 1 execute_def execute_formats_Dimensions)
qed

theorem execute_skips_invalid_format_witness:
  "execute example_env
     (example_job\<lparr>Dimensions := \<lparr>MinWidth = 0, MinHeight = 0,
        Formats = [example_format\<lparr>Name := [], Watermark := None\<rparr>, example_format\<lparr>Watermark := None\<rparr>]\<rparr>\<rparr>)
     example_state
   = example_state\<lparr>fs := (fs example_state)(''a.png:thumb'' \<mapsto> ''backdropped'')\<rparr>"
proof -
  have 1: "Name (example_format\<lparr>Name := [], Watermark := None\<rparr>) = []
      \<or> Width (example_format\<lparr>Name := [], Watermark := None\<rparr>) \<le>s 0
      \<or> Height (example_format\<lparr>Name := [], Watermark := None\<rparr>) \<le>s 0"
    by simp
  have 2: "execute example_env
     (example_job\<lparr>Dimensions := \<lparr>MinWidth = 0, MinHeight = 0,
        Formats = [example_format\<lparr>Watermark := None\<rparr>]\<rparr>\<rparr>)
     example_state
   = example_state\<lparr>fs := (fs example_state)(''a.png:thumb'' \<mapsto> ''backdropped'')\<rparr>"
    by (simp add: execute_def execute_format_def ex_defs newWidth_def newHeight_def landscape_def word_sless_alt word_sle_eq)
  show ?thesis
    using execute_skips_invalid_format [OF 1, where e = example_env and st = example_state
        and before = "[]" and after = "[example_format\<lparr>Watermark := None\<rparr>]"
        and j = "example_job\<lparr>Dimensions := \<lparr>MinWidth = 0, MinHeight = 0,
        Formats = [example_format\<lparr>Name := [], Watermark := None\<rparr>, example_format\<lparr>Watermark := None\<rparr>]\<rparr>\<rparr>"]
      2
    by (simp add: example_job_def)
qed

subsection \<open>The choice between backdrop and fill\<close>

text \<open>
  C9. What an entry of a job does, from the test that skips it to the end of the
  transform. Once the original is open, the image handed on is the backdrop composite
  exactly when the entry has its \<open>Backdrop\<close> flag and the height of the original is not
  strictly less than its width; in every other case it is the original filled and
  cropped to the target size. A square original is not landscape.
\<close>

theorem execute_format_backdrop_path:
  "execute_format e j st format =
     (if Name format = [] \<or> Width format \<le>s 0 \<or> Height format \<le>s 0 then st
      else case imaging_Open e st (FileDiskPath j) of
             None \<Rightarrow> st
           | Some img \<Rightarrow>
               (case apply_watermark e st
                       (if Backdrop format
                           \<and> \<not> sint (ConfigHeight (JobConfig j)) < sint (ConfigWidth (JobConfig j))
                        then OverlayCenter (backdrop_layer e st format)
                               (Fit img (newWidth j format) (newHeight j format))
                        else Fill img (newWidth j format) (newHeight j format))
                       format of
                  Inl err \<Rightarrow> st
                | Inr (img', st') \<Rightarrow> snd (save e st' (FileDiskPath j) format img')))
   \<and> ((\<exists>back fitted. resize e st img (newWidth j format) (newHeight j format) (landscape j) format
                         = OverlayCenter back fitted)
        \<longleftrightarrow> Backdrop format \<and> \<not> sint (ConfigHeight (JobConfig j)) < sint (ConfigWidth (JobConfig j)))
   \<and> ((\<exists>original w h. resize e st img (newWidth j format) (newHeight j format) (landscape j) format
                           = Fill original w h)
        \<longleftrightarrow> \<not> (Backdrop format \<and> \<not> sint (ConfigHeight (JobConfig j)) < sint (ConfigWidth (JobConfig j))))
   \<and> (ConfigHeight (JobConfig j) = ConfigWidth (JobConfig j) \<longrightarrow> \<not> landscape j)"
proof (intro conjI)
  show "execute_format e j st format =
     (if Name format = [] \<or> Width format \<le>s 0 \<or> Height format \<le>s 0 then st
      else case imaging_Open e st (FileDiskPath j) of
             None \<Rightarrow> st
           | Some img \<Rightarrow>
               (case apply_watermark e st
                       (if Backdrop format
                           \<and> \<not> sint (ConfigHeight (JobConfig j)) < sint (ConfigWidth (JobConfig j))
                        then OverlayCenter (backdrop_layer e st format)
                               (Fit img (newWidth j format) (newHeight j format))
                        else Fill img (newWidth j format) (newHeight j format))
                       format of
                  Inl err \<Rightarrow> st
                | Inr (img', st') \<Rightarrow> snd (save e st' (FileDiskPath j) format img')))"
    by (simp add: execute_format_def imageProcess_def resize_def landscape_def word_sless_alt
        split: option.splits sum.splits)
next
  show "(\<exists>back fitted. resize e st img (newWidth j format) (newHeight j format) (landscape j) format
                         = OverlayCenter back fitted)
        \<longleftrightarrow> Backdrop format \<and> \<not> sint (ConfigHeight (JobConfig j)) < sint (ConfigWidth (JobConfig j))"
    by (simp add: resize_def landscape_def word_sless_alt)
next
  show "(\<exists>original w h. resize e st img (newWidth j format) (newHeight j format) (landscape j) format
                           = Fill original w h)
        \<longleftrightarrow> \<not> (Backdrop format \<and> \<not> sint (ConfigHeight (JobConfig j)) < sint (ConfigWidth (JobConfig j)))"
    by (simp add: resize_def landscape_def word_sless_alt)
next
  show "ConfigHeight (JobConfig j) = ConfigWidth (JobConfig j) \<longrightarrow> \<not> landscape j"
    by (simp add: landscape_def)
qed

theorem execute_format_backdrop_path_witness:
  "fs (execute_format example_env (example_job\<lparr>JobConfig := \<lparr>ConfigWidth = 100, ConfigHeight = 100\<rparr>\<rparr>)
         example_state (example_format\<lparr>Watermark := None\<rparr>)) ''a.png:thumb'' = Some ''backdropped''
   \<and> fs (execute_format example_env (example_job\<lparr>JobConfig := \<lparr>ConfigWidth = 200, ConfigHeight = 100\<rparr>\<rparr>)
         example_state (example_format\<lparr>Watermark := None\<rparr>)) ''a.png:thumb'' = Some ''plain''
   \<and> fs (execute_format example_env (example_job\<lparr>JobConfig := \<lparr>ConfigWidth = 100, ConfigHeight = 100\<rparr>\<rparr>)
         example_state (example_format\<lparr>Backdrop := False, Watermark := None\<rparr>)) ''a.png:thumb'' = Some ''plain''"
  using execute_format_backdrop_path [of example_env
      "example_job\<lparr>JobConfig := \<lparr>ConfigWidth = 100, ConfigHeight = 100\<rparr>\<rparr>" example_state
      "example_format\<lparr>Watermark := None\<rparr>"]
    execute_format_backdrop_path [of example_env
      "example_job\<lparr>JobConfig := \<lparr>ConfigWidth = 200, ConfigHeight = 100\<rparr>\<rparr>" example_state
      "example_format\<lparr>Watermark := None\<rparr>"]
    execute_format_backdrop_path [of example_env
      "example_job\<lparr>JobConfig := \<lparr>ConfigWidth = 100, ConfigHeight = 100\<rparr>\<rparr>" example_state
      "example_format\<lparr>Backdrop := False, Watermark := None\<rparr>"]
  by (simp add: example_env_def example_state_def example_format_def example_job_def
      imaging_Open_def image_Decode_def backdrop_layer_def open_backdrop_def
      apply_watermark_def save_def word_sle_eq)

subsection \<open>The backdrop that cannot be loaded\<close>

text \<open>
  The claim C4 as stated, with the backdrop of the size of the target box, fails: the
  target box is the size that \<open>execute\<close> passes on, with the width capped, and the
  synthesized backdrop has the size the entry asks for. An original of 100 by 200 and an entry of 500 by 500
  give the target 100 by 500 and a backdrop of 500 by 500.
\<close>

theorem backdrop_size_counterexample:
  "open_backdrop example_env example_state = None
   \<and> newWidth example_job example_format = 100
   \<and> newHeight example_job example_format = 500
   \<and> backdrop_layer example_env example_state example_format = New 500 500 (NRGBA 0 29 56 0)
   \<and> backdrop_layer example_env example_state example_format
       \<noteq> New (newWidth example_job example_format) (newHeight example_job example_format) (NRGBA 0 29 56 0)"
  by (simp add: ex_defs newWidth_def newHeight_def word_sless_alt)

text \<open>
  C4, amended. On the backdrop path, when the backdrop asset cannot be loaded (in DEV the
  file is missing or does not decode; in PROD the asset box fails to open it or it does
  not decode), this failure returns no error: the transform goes on with the original
  fitted to the target size and laid centred over a new image of the size the entry asks
  for, \<open>Width\<close> by \<open>Height\<close>, in the colour NRGBA 0, 29, 56 with alpha 0. Only the later
  steps can then fail; with no watermark, a known codec, a file that can be created and an
  encoder that succeeds, no error is returned and the file holds the encoded composite.
\<close>

theorem backdrop_fallback:
  assumes "(env_mode e = EnvironmentDEV \<and> imaging_Open e st (''../assets/'' @ diskPathBackdrop e) = None)
         \<or> (env_mode e = EnvironmentPROD \<and> image_Decode e (assetBox_Open e (diskPathBackdrop e)) = None)"
    and "Backdrop format" and "\<not> ls" and "imaging_Open e st p = Some img"
  shows "imageProcess e st p nw nh ls format =
          (case apply_watermark e st
                  (OverlayCenter (New (Width format) (Height format) (NRGBA 0 29 56 0)) (Fit img nw nh))
                  format of
             Inl err \<Rightarrow> (Some err, st)
           | Inr (img', st') \<Rightarrow> save e st' p format img')
     \<and> (Watermark format = None \<and> imaging_FormatFromFilename e p = Some c
         \<and> os_Create_ok e (p @ '':'' @ Name format)
         \<and> imaging_Encode e (OverlayCenter (New (Width format) (Height format) (NRGBA 0 29 56 0))
                                (Fit img nw nh)) c = Encoded b
        \<longrightarrow> imageProcess e st p nw nh ls format = (None, st\<lparr>fs := (fs st)(p @ '':'' @ Name format \<mapsto> b)\<rparr>))"
proof -
  have "open_backdrop e st = None"
    using assms(1) by (auto simp: open_backdrop_def)
  then have r: "resize e st img nw nh ls format
      = OverlayCenter (New (Width format) (Height format) (NRGBA 0 29 56 0)) (Fit img nw nh)"
    using assms(2,3) by (simp add: resize_def backdrop_layer_def fallback_color_def)
  have 1: "imageProcess e st p nw nh ls format =
          (case apply_watermark e st
                  (OverlayCenter (New (Width format) (Height format) (NRGBA 0 29 56 0)) (Fit img nw nh))
                  format of
             Inl err \<Rightarrow> (Some err, st)
           | Inr (img', st') \<Rightarrow> save e st' p format img')"
    by (simp add: imageProcess_def assms(4) r)
  show ?thesis
    by (simp add: 1) (simp add: apply_watermark_def save_def)
qed

theorem backdrop_fallback_witness:
  "imageProcess example_env example_state ''a.png'' 100 500 False (example_format\<lparr>Watermark := None\<rparr>)
     = (None, example_state\<lparr>fs := (fs example_state)(''a.png'' @ '':'' @ ''thumb'' \<mapsto> ''backdropped'')\<rparr>)"
proof -
  have 1: "(env_mode example_env = EnvironmentDEV
           \<and> imaging_Open example_env example_state (''../assets/'' @ diskPathBackdrop example_env) = None)
         \<or> (env_mode example_env = EnvironmentPROD
           \<and> image_Decode example_env (assetBox_Open example_env (diskPathBackdrop example_env)) = None)"
    by (simp add: ex_defs)
  have 2: "Backdrop (example_format\<lparr>Watermark := None\<rparr>)" by (simp add: ex_defs)
  have 3: "\<not> False" by simp
  have 4: "imaging_Open example_env example_state ''a.png'' = Some (Decoded ''img'')"
    by (simp add: ex_defs)
  show ?thesis
    using backdrop_fallback [OF 1 2 3 4, where nw = 100 and nh = 500 and c = PNG and b = "''backdropped''"]
    by (simp add: ex_defs)
qed

subsection \<open>The watermark that cannot be loaded\<close>

lemma resize_Watermark_update:
  "resize e st img nw nh ls (format\<lparr>Watermark := w\<rparr>) = resize e st img nw nh ls format"
  by (simp add: resize_def backdrop_layer_def split: option.splits)

lemma save_Watermark_update:
  "save e st p (format\<lparr>Watermark := w\<rparr>) img = save e st p format img"
  by (simp add: save_def Let_def split: option.splits)

lemma apply_watermark_nil:
  "apply_watermark e st img (format\<lparr>Watermark := None\<rparr>) = Inr (img, st)"
  by (simp add: apply_watermark_def)

lemma apply_watermark_skipped:
  "open_watermark e st (Name format) = Inr None \<Longrightarrow> apply_watermark e st img format = Inr (img, st)"
  by (simp add: apply_watermark_def split: option.splits)

lemma imageProcess_no_watermark_asset:
  assumes "open_watermark e st (Name format) = Inr None"
  shows "imageProcess e st p nw nh ls format = imageProcess e st p nw nh ls (format\<lparr>Watermark := None\<rparr>)"
  by (simp add: imageProcess_def apply_watermark_skipped [OF assms] apply_watermark_nil
      resize_Watermark_update save_Watermark_update split: option.splits)

text \<open>
  The claim C3 as stated fails in PROD: when the asset box cannot open the watermark,
  the transform returns the error "watermark not found" and writes no file, while the same
  entry without a watermark is written.
\<close>

theorem watermark_not_found_counterexample:
  "assetBox_Open (example_env\<lparr>env_mode := EnvironmentPROD\<rparr>) (''watermark.png'' @ '':'' @ ''thumb'') = None
   \<and> imageProcess (example_env\<lparr>env_mode := EnvironmentPROD\<rparr>) example_state ''a.png'' 100 500 False example_format
       = (Some WatermarkNotFound, example_state)
   \<and> fs example_state ''a.png:thumb'' = None
   \<and> imageProcess (example_env\<lparr>env_mode := EnvironmentPROD\<rparr>) example_state ''a.png'' 100 500 False
        (example_format\<lparr>Watermark := None\<rparr>)
       = (None, example_state\<lparr>fs := (fs example_state)(''a.png:thumb'' \<mapsto> ''backdropped'')\<rparr>)"
  by (simp add: ex_defs)

text \<open>
  C3, amended. For an entry with a watermark position: when the watermark cannot be
  loaded in DEV (the file is missing or does not decode), or in PROD the asset box opens it
  but it does not decode, the transform does exactly what it does for the same entry
  without a watermark position: the same file, the same error or none. When in PROD the
  asset box fails to open the watermark, the transform returns the error
  "watermark not found" (after the original was opened) and leaves the state as it is.
\<close>

theorem watermark_fallback:
  "((env_mode e = EnvironmentDEV
       \<and> imaging_Open e st (''../assets/'' @ diskPathWatermark e @ '':'' @ Name format) = None)
     \<or> (env_mode e = EnvironmentPROD
       \<and> assetBox_Open e (diskPathWatermark e @ '':'' @ Name format) = Some b \<and> \<not> decodable e b)
    \<longrightarrow> imageProcess e st p nw nh ls format = imageProcess e st p nw nh ls (format\<lparr>Watermark := None\<rparr>))
   \<and> (env_mode e = EnvironmentPROD \<and> Watermark format = Some a
       \<and> assetBox_Open e (diskPathWatermark e @ '':'' @ Name format) = None
    \<longrightarrow> imageProcess e st p nw nh ls format =
          (case imaging_Open e st p of
             None \<Rightarrow> (Some ImageOpenError, st)
           | Some img \<Rightarrow> (Some WatermarkNotFound, st)))"
proof (intro conjI impI)
  assume "(env_mode e = EnvironmentDEV
       \<and> imaging_Open e st (''../assets/'' @ diskPathWatermark e @ '':'' @ Name format) = None)
     \<or> (env_mode e = EnvironmentPROD
       \<and> assetBox_Open e (diskPathWatermark e @ '':'' @ Name format) = Some b \<and> \<not> decodable e b)"
  then have "open_watermark e st (Name format) = Inr None"
    by (auto simp: open_watermark_def image_Decode_def)
  then show "imageProcess e st p nw nh ls format = imageProcess e st p nw nh ls (format\<lparr>Watermark := None\<rparr>)"
    by (rule imageProcess_no_watermark_asset)
next
  assume "env_mode e = EnvironmentPROD \<and> Watermark format = Some a
       \<and> assetBox_Open e (diskPathWatermark e @ '':'' @ Name format) = None"
  then show "imageProcess e st p nw nh ls format =
          (case imaging_Open e st p of
             None \<Rightarrow> (Some ImageOpenError, st)
           | Some img \<Rightarrow> (Some WatermarkNotFound, st))"
    by (simp add: imageProcess_def apply_watermark_def open_watermark_def split: option.splits)
qed

theorem watermark_fallback_witness:
  "imageProcess example_env example_state ''a.png'' 100 500 False example_format
     = (None, example_state\<lparr>fs := (fs example_state)(''a.png:thumb'' \<mapsto> ''backdropped'')\<rparr>)
   \<and> imageProcess (example_env\<lparr>env_mode := EnvironmentPROD,
                                 assetBox_Open := (\<lambda>key. if key = ''watermark.png:thumb'' then Some ''junk'' else None)\<rparr>)
        example_state ''a.png'' 100 500 False example_format
     = (None, example_state\<lparr>fs := (fs example_state)(''a.png:thumb'' \<mapsto> ''backdropped'')\<rparr>)
   \<and> imageProcess (example_env\<lparr>env_mode := EnvironmentPROD\<rparr>) example_state ''a.png'' 100 500 False example_format
     = (Some WatermarkNotFound, example_state)"
proof -
  have dev: "env_mode example_env = EnvironmentDEV
       \<and> imaging_Open example_env example_state
            (''../assets/'' @ diskPathWatermark example_env @ '':'' @ Name example_format) = None"
    by (simp add: ex_defs)
  have junk: "env_mode (example_env\<lparr>env_mode := EnvironmentPROD,
                 assetBox_Open := (\<lambda>key. if key = ''watermark.png:thumb'' then Some ''junk'' else None)\<rparr>) = EnvironmentPROD
       \<and> assetBox_Open (example_env\<lparr>env_mode := EnvironmentPROD,
                 assetBox_Open := (\<lambda>key. if key = ''watermark.png:thumb'' then Some ''junk'' else None)\<rparr>)
            (diskPathWatermark (example_env\<lparr>env_mode := EnvironmentPROD,
                 assetBox_Open := (\<lambda>key. if key = ''watermark.png:thumb'' then Some ''junk'' else None)\<rparr>)
               @ '':'' @ Name example_format) = Some ''junk''
       \<and> \<not> decodable (example_env\<lparr>env_mode := EnvironmentPROD,
                 assetBox_Open := (\<lambda>key. if key = ''watermark.png:thumb'' then Some ''junk'' else None)\<rparr>) ''junk''"
    by (simp add: ex_defs)
  have prod: "env_mode (example_env\<lparr>env_mode := EnvironmentPROD\<rparr>) = EnvironmentPROD
       \<and> Watermark example_format = Some 0
       \<and> assetBox_Open (example_env\<lparr>env_mode := EnvironmentPROD\<rparr>)
            (diskPathWatermark (example_env\<lparr>env_mode := EnvironmentPROD\<rparr>) @ '':'' @ Name example_format) = None"
    by (simp add: ex_defs)
  have plain: "imageProcess e example_state ''a.png'' 100 500 False (example_format\<lparr>Watermark := None\<rparr>)
     = (None, example_state\<lparr>fs := (fs example_state)(''a.png:thumb'' \<mapsto> ''backdropped'')\<rparr>)"
    if "e = example_env \<or> e = example_env\<lparr>env_mode := EnvironmentPROD,
                 assetBox_Open := (\<lambda>key. if key = ''watermark.png:thumb'' then Some ''junk'' else None)\<rparr>" for e
    using that by (auto simp: ex_defs)
  have opened: "imaging_Open (example_env\<lparr>env_mode := EnvironmentPROD\<rparr>) example_state ''a.png'' = Some (Decoded ''img'')"
    by (simp add: ex_defs)
  show ?thesis
    using watermark_fallback [where e = example_env and st = example_state and format = example_format
          and p = "''a.png''" and nw = 100 and nh = 500 and ls = False]
      watermark_fallback [where e = "example_env\<lparr>env_mode := EnvironmentPROD,
                 assetBox_Open := (\<lambda>key. if key = ''watermark.png:thumb'' then Some ''junk'' else None)\<rparr>"
          and st = example_state and format = example_format and b = "''junk''"
          and p = "''a.png''" and nw = 100 and nh = 500 and ls = False]
      watermark_fallback [where e = "example_env\<lparr>env_mode := EnvironmentPROD\<rparr>" and st = example_state
          and format = example_format and a = 0 and p = "''a.png''" and nw = 100 and nh = 500 and ls = False]
      dev junk prod plain opened
    by simp
qed

subsection \<open>Anchors normalised through the pointer\<close>







subsection \<open>Validation\<close>

text \<open>
  C6. \<open>Add\<close> sends a job only for a buffer whose header decodes to one of the types
  jpg, jpeg and png. A buffer that passes the magic-byte check and whose header decodes to
  any other type is refused with the error that names the type, and nothing is sent; so it
  is for the type gif, although \<open>init\<close> registers a codec under that name.
\<close>

theorem Add_unsupported_type:
  "(Add v buf fileDiskPath dimensions validate = Inr job \<longrightarrow>
      (\<exists>config imgType. image_DecodeConfig v buf = Some (config, imgType)
          \<and> imgType \<in> {''jpg'', ''jpeg'', ''png''}))
   \<and> (filetype_IsImage v buf \<and> image_DecodeConfig v buf = Some (config, imgType)
        \<and> imgType \<notin> {''jpg'', ''jpeg'', ''png''} \<longrightarrow>
      Add v buf fileDiskPath dimensions validate = Inl (UnsupportedType imgType))
   \<and> ''gif'' \<in> set init_registered
   \<and> (filetype_IsImage v buf \<and> image_DecodeConfig v buf = Some (config, ''gif'') \<longrightarrow>
      Add v buf fileDiskPath dimensions validate = Inl (UnsupportedType ''gif''))"
  by (auto simp: Add_def Let_def TypeImageJPG_def TypeImageJPEG_def TypeImagePNG_def init_registered_def
      split: option.splits if_splits)

theorem Add_unsupported_type_witness:
  "Add example_validator ''GIF89a'' ''a.gif'' None True = Inl (UnsupportedType ''gif'')
   \<and> Add example_validator ''PNG'' ''a.png'' None True
       = Inr \<lparr>FileDiskPath = ''a.png'', JobConfig = \<lparr>ConfigWidth = 100, ConfigHeight = 200\<rparr>,
              Dimensions = DefaultDimensions example_validator\<rparr>
   \<and> (\<exists>config imgType. image_DecodeConfig example_validator ''PNG'' = Some (config, imgType)
          \<and> imgType \<in> {''jpg'', ''jpeg'', ''png''})"
proof -
  have png: "Add example_validator ''PNG'' ''a.png'' None True
       = Inr \<lparr>FileDiskPath = ''a.png'', JobConfig = \<lparr>ConfigWidth = 100, ConfigHeight = 200\<rparr>,
              Dimensions = DefaultDimensions example_validator\<rparr>"
    by (simp add: Add_def example_validator_def DefaultDimensions_def
        TypeImageJPG_def TypeImageJPEG_def TypeImagePNG_def)
  have gif: "filetype_IsImage example_validator ''GIF89a''
      \<and> image_DecodeConfig example_validator ''GIF89a'' = Some (\<lparr>ConfigWidth = 100, ConfigHeight = 200\<rparr>, ''gif'')"
    by (simp add: example_validator_def)
  show ?thesis
    using Add_unsupported_type [where v = example_validator and buf = "''PNG''" and fileDiskPath = "''a.png''"
        and dimensions = None and validate = True
        and job = "\<lparr>FileDiskPath = ''a.png'', JobConfig = \<lparr>ConfigWidth = 100, ConfigHeight = 200\<rparr>,
              Dimensions = DefaultDimensions example_validator\<rparr>"]
      Add_unsupported_type [where v = example_validator and buf = "''GIF89a''" and fileDiskPath = "''a.gif''"
        and dimensions = None and validate = True
        and config = "\<lparr>ConfigWidth = 100, ConfigHeight = 200\<rparr>"]
      png gif
    by blast
qed

text \<open>
  C7. When \<open>MinWidth\<close> is the no-limit sentinel \<open>Add\<close> never returns the width error,
  and when \<open>MinHeight\<close> is the sentinel never the height error, whatever the flag and the
  size of the image. When the flag is false neither error is ever returned. An image that
  passes the checks before the floors is accepted as soon as the flag is false or both
  floors are the sentinel.
\<close>

theorem Add_floor_sentinel:
  "(MinWidth dims = NoLimit v \<longrightarrow> Add v buf fileDiskPath (Some dims) validate \<noteq> Inl (BelowMinWidth n))
   \<and> (MinHeight dims = NoLimit v \<longrightarrow> Add v buf fileDiskPath (Some dims) validate \<noteq> Inl (BelowMinHeight n))
   \<and> Add v buf fileDiskPath dimensions False \<noteq> Inl (BelowMinWidth n)
   \<and> Add v buf fileDiskPath dimensions False \<noteq> Inl (BelowMinHeight n)
   \<and> (filetype_IsImage v buf \<and> image_DecodeConfig v buf = Some (config, imgType)
       \<and> imgType \<in> {''jpg'', ''jpeg'', ''png''}
       \<and> (\<not> validate \<or> (MinWidth dims = NoLimit v \<and> MinHeight dims = NoLimit v)) \<longrightarrow>
      Add v buf fileDiskPath (Some dims) validate
        = Inr \<lparr>FileDiskPath = fileDiskPath, JobConfig = config, Dimensions = dims\<rparr>)"
  by (auto simp: Add_def Let_def TypeImageJPG_def TypeImageJPEG_def TypeImagePNG_def
      split: option.splits if_splits)

theorem Add_floor_sentinel_witness:
  "Add (example_validator\<lparr>NoLimit := 1000\<rparr>) ''PNG'' ''a.png''
       (Some \<lparr>MinWidth = 1000, MinHeight = 1000, Formats = []\<rparr>) True
     = Inr \<lparr>FileDiskPath = ''a.png'', JobConfig = \<lparr>ConfigWidth = 100, ConfigHeight = 200\<rparr>,
            Dimensions = \<lparr>MinWidth = 1000, MinHeight = 1000, Formats = []\<rparr>\<rparr>
   \<and> Add example_validator ''PNG'' ''a.png''
       (Some \<lparr>MinWidth = 1000, MinHeight = 1000, Formats = []\<rparr>) False
     = Inr \<lparr>FileDiskPath = ''a.png'', JobConfig = \<lparr>ConfigWidth = 100, ConfigHeight = 200\<rparr>,
            Dimensions = \<lparr>MinWidth = 1000, MinHeight = 1000, Formats = []\<rparr>\<rparr>
   \<and> Add example_validator ''PNG'' ''a.png''
       (Some \<lparr>MinWidth = - 1, MinHeight = 1000, Formats = []\<rparr>) True = Inl (BelowMinHeight 1000)"
proof -
  have 1: "filetype_IsImage (example_validator\<lparr>NoLimit := n\<rparr>) ''PNG''
      \<and> image_DecodeConfig (example_validator\<lparr>NoLimit := n\<rparr>) ''PNG''
          = Some (\<lparr>ConfigWidth = 100, ConfigHeight = 200\<rparr>, ''png'')
      \<and> ''png'' \<in> {''jpg'', ''jpeg'', ''png''}" for n
    by (simp add: example_validator_def)
  have 2: "Add example_validator ''PNG'' ''a.png''
       (Some \<lparr>MinWidth = - 1, MinHeight = 1000, Formats = []\<rparr>) True = Inl (BelowMinHeight 1000)"
    by (simp add: Add_def example_validator_def TypeImageJPG_def TypeImageJPEG_def TypeImagePNG_def
        word_sless_alt)
  show ?thesis
    using Add_floor_sentinel [where v = "example_validator\<lparr>NoLimit := 1000\<rparr>" and buf = "''PNG''"
        and fileDiskPath = "''a.png''" and validate = True
        and dims = "\<lparr>MinWidth = 1000, MinHeight = 1000, Formats = []\<rparr>"
        and config = "\<lparr>ConfigWidth = 100, ConfigHeight = 200\<rparr>" and imgType = "''png''"]
      Add_floor_sentinel [where v = "example_validator\<lparr>NoLimit := - 1\<rparr>" and buf = "''PNG''"
        and fileDiskPath = "''a.png''" and validate = False
        and dims = "\<lparr>MinWidth = 1000, MinHeight = 1000, Formats = []\<rparr>"
        and config = "\<lparr>ConfigWidth = 100, ConfigHeight = 200\<rparr>" and imgType = "''png''"]
      1 [of 1000] 1 [of "- 1"] 2
    by (simp add: example_validator_def)
qed

end
